theory Spec2Isabelle
  imports Complex_Main
begin

section \<open>Strings\<close>

text \<open>
  A Python \<open>str\<close> is a sequence of code points. The model is \<open>string\<close>, one \<open>char\<close> per
  code point, which covers the code points U+0000 to U+00FF. The character classes below
  are the ones the Python library uses on that range: \<open>str.isspace\<close> (for \<open>strip\<close> and
  \<open>split\<close> without argument), \<open>str.lower\<close>, \<open>string.punctuation\<close>, and the
  class \<open>\w\<close> of \<open>re\<close> on \<open>str\<close> patterns.
\<close>

definition code_point :: "char \<Rightarrow> nat" where
  "code_point c = of_char c"

definition isspace :: "char \<Rightarrow> bool" where
  "isspace c = (let n = code_point c in
     (9 \<le> n \<and> n \<le> 13) \<or> (28 \<le> n \<and> n \<le> 32) \<or> n = 133 \<or> n = 160)"

definition is_ascii_upper :: "char \<Rightarrow> bool" where
  "is_ascii_upper c = (let n = code_point c in 65 \<le> n \<and> n \<le> 90)"

definition is_ascii_letter :: "char \<Rightarrow> bool" where
  "is_ascii_letter c = (let n = code_point c in
     (65 \<le> n \<and> n \<le> 90) \<or> (97 \<le> n \<and> n \<le> 122))"

text \<open>\<open>string.punctuation\<close>: the 32 ASCII characters
  \<^verbatim>\<open>!"#$%&'()*+,-./:;<=>?@[\]^_`{|}~\<close>.\<close>

definition punctuation :: "char \<Rightarrow> bool" where
  "punctuation c = (let n = code_point c in
     (33 \<le> n \<and> n \<le> 47) \<or> (58 \<le> n \<and> n \<le> 64) \<or>
     (91 \<le> n \<and> n \<le> 96) \<or> (123 \<le> n \<and> n \<le> 126))"

text \<open>\<open>\w\<close>: the characters with \<open>str.isalnum\<close>, and the underscore.\<close>

definition is_word_char :: "char \<Rightarrow> bool" where
  "is_word_char c = (let n = code_point c in
     (48 \<le> n \<and> n \<le> 57) \<or> (65 \<le> n \<and> n \<le> 90) \<or> n = 95 \<or> (97 \<le> n \<and> n \<le> 122) \<or>
     n = 170 \<or> n = 178 \<or> n = 179 \<or> n = 181 \<or> n = 185 \<or> n = 186 \<or>
     (188 \<le> n \<and> n \<le> 190) \<or> (192 \<le> n \<and> n \<le> 214) \<or>
     (216 \<le> n \<and> n \<le> 246) \<or> (248 \<le> n \<and> n \<le> 255))"

definition lower_char :: "char \<Rightarrow> char" where
  "lower_char c = (let n = code_point c in
     if (65 \<le> n \<and> n \<le> 90) \<or> (192 \<le> n \<and> n \<le> 214) \<or> (216 \<le> n \<and> n \<le> 222)
     then char_of (n + 32) else c)"

definition lower :: "string \<Rightarrow> string" where
  "lower text = map lower_char text"

definition strip :: "string \<Rightarrow> string" where
  "strip text = rev (dropWhile isspace (rev (dropWhile isspace text)))"

text \<open>\<open>text.translate(str.maketrans('', '', string.punctuation))\<close> deletes every
  character of \<open>string.punctuation\<close>.\<close>

definition delete_punctuation :: "string \<Rightarrow> string" where
  "delete_punctuation text = filter (\<lambda>c. \<not> punctuation c) text"

text \<open>The maximal runs of characters of a class, from left to right.\<close>

function maximal_runs :: "(char \<Rightarrow> bool) \<Rightarrow> string \<Rightarrow> string list" where
  "maximal_runs P s =
     (case dropWhile (\<lambda>c. \<not> P c) s of
        [] \<Rightarrow> []
      | c # cs \<Rightarrow> takeWhile P (c # cs) # maximal_runs P (dropWhile P (c # cs)))"
  by pat_completeness auto
termination
proof (relation "measure (\<lambda>(P, s). length s)")
  show "wf (measure (\<lambda>(P, s). length s))" by simp
next
  fix P :: "char \<Rightarrow> bool" and s :: string and c :: char and cs :: string
  assume eq: "dropWhile (\<lambda>c. \<not> P c) s = c # cs"
  have "P c"
    using hd_dropWhile [of "\<lambda>c. \<not> P c" s] eq by simp
  then have "length (dropWhile P (c # cs)) \<le> length cs"
    by (simp add: length_dropWhile_le)
  moreover have "length (c # cs) \<le> length s"
    using length_dropWhile_le [of "\<lambda>c. \<not> P c" s] eq by simp
  ultimately show "((P, dropWhile P (c # cs)), (P, s)) \<in> measure (\<lambda>(P, s). length s)"
    by simp
qed

declare maximal_runs.simps [simp del]

text \<open>\<open>str.split()\<close> without argument: the maximal runs of non-whitespace characters.\<close>

definition split :: "string \<Rightarrow> string list" where
  "split text = maximal_runs (\<lambda>c. \<not> isspace c) text"

text \<open>
  \<open>re.findall(r'\b[a-zA-Z]+\b', text)\<close>. The scan tries each position from left to right;
  \<open>prev_word\<close> says whether the character before the position is a word character
  (false at the start of the text). At a position, \<open>\b\<close> then an ASCII letter needs a
  non-word character before it; the greedy \<open>[a-zA-Z]+\<close> takes the whole run of letters,
  and the closing \<open>\b\<close> holds only at the end of that run (inside the run both
  neighbours are letters), when the text ends there or a non-word character follows.
  After a match the scan goes on behind it; otherwise it moves one character on.
\<close>

function findall_words :: "bool \<Rightarrow> string \<Rightarrow> string list" where
  "findall_words prev_word [] = []"
| "findall_words prev_word (c # cs) =
     (if \<not> prev_word \<and> is_ascii_letter c then
        (let run = takeWhile is_ascii_letter (c # cs);
             rest = dropWhile is_ascii_letter (c # cs)
         in if (case rest of [] \<Rightarrow> True | d # _ \<Rightarrow> \<not> is_word_char d)
            then run # findall_words True rest
            else findall_words (is_word_char c) cs)
      else findall_words (is_word_char c) cs)"
  by pat_completeness auto
termination
proof (relation "measure (\<lambda>(p, s). length s)")
  show "wf (measure (\<lambda>(p, s). length s))" by simp
next
  fix prev_word :: bool and c :: char and cs run rest :: string
  assume "\<not> prev_word \<and> is_ascii_letter c" and "rest = dropWhile is_ascii_letter (c # cs)"
  then have "length rest \<le> length cs"
    by (simp add: length_dropWhile_le)
  then show "((True, rest), (prev_word, c # cs)) \<in> measure (\<lambda>(p, s). length s)"
    by simp
qed simp_all

definition re_findall :: "string \<Rightarrow> string list" where
  "re_findall text = findall_words False text"

section \<open>The dataset\<close>

text \<open>
  The loaded JSON document is a list of topic objects, each with a list of turn objects.
  A field is \<open>None\<close> when its key is absent from the object; a present key holds a string
  (a list of turns for \<open>conversations\<close>).
\<close>

record turn_record =
  speaker :: "string option"
  gujlish :: "string option"
  english :: "string option"

record topic_record =
  topic :: "string option"
  conversations :: "turn_record list option"

datatype error = KeyError string

section \<open>analyze\_gujlish\_dataset.py\<close>

definition normalize_text :: "string \<Rightarrow> string" where
  "normalize_text text =
     (let text = strip (lower text);
          text = delete_punctuation text
      in text)"

definition are_sentences_identical :: "string \<Rightarrow> string \<Rightarrow> bool" where
  "are_sentences_identical gujlish_text english_text =
     (normalize_text gujlish_text = normalize_text english_text)"

text \<open>
  The local variables of \<open>analyze_conversations\<close> that the loops update, and the returned
  dictionary. The five counters keep their names in both. A \<open>Counter\<close> is a dictionary,
  which keeps its keys in insertion order: an association list. A Python float is
  modelled by the exact rational it approximates.
\<close>

record counters =
  total_sentences :: nat
  english_sentences :: nat
  gujlish_sentences :: nat
  topics :: "(string \<times> nat) list"
  identical_sentences :: nat

record locals = counters +
  eng_ratios :: "rat list"
  guj_ratios :: "rat list"

record statistics = counters +
  total_conversations :: nat
  language_mix_stats :: "(rat \<times> rat) list"
  avg_eng_ratio :: rat
  avg_guj_ratio :: rat

text \<open>\<open>topics[key] += 1\<close> on a \<open>Counter\<close>: a missing key counts as 0.\<close>

fun counter_incr :: "string \<Rightarrow> (string \<times> nat) list \<Rightarrow> (string \<times> nat) list" where
  "counter_incr key [] = [(key, 1)]"
| "counter_incr key ((k, n) # rest) =
     (if k = key then (k, n + 1) # rest else (k, n) # counter_incr key rest)"

text \<open>The number of matches of the regular expression (line 51).\<close>

definition eng_words_of :: "string \<Rightarrow> nat" where
  "eng_words_of gujlish_text = length (re_findall gujlish_text)"

text \<open>Lines 49 to 55: the ratio pair of one turn, \<open>None\<close> when nothing is appended.
  The quotients here and in \<open>average\<close> below are exact; the code rounds each of them to
  the nearest double.\<close>

definition language_mix_ratio :: "string \<Rightarrow> (rat \<times> rat) option" where
  "language_mix_ratio gujlish_text =
     (let words = split gujlish_text;
          total_words = length words;
          eng_words = eng_words_of gujlish_text;
          guj_words = int total_words - int eng_words
      in if total_words > 0
         then Some (of_nat eng_words / of_nat total_words, of_int guj_words / of_nat total_words)
         else None)"

text \<open>The body of the inner loop (lines 38 to 55).\<close>

definition process_message :: "locals \<Rightarrow> turn_record \<Rightarrow> error + locals" where
  "process_message s message =
     (let s = s\<lparr>total_sentences := total_sentences s + 1\<rparr> in
      case gujlish message of
        None \<Rightarrow> Inl (KeyError ''gujlish'')
      | Some gujlish_text \<Rightarrow>
     (case english message of
        None \<Rightarrow> Inl (KeyError ''english'')
      | Some english_text \<Rightarrow>
     (let s = (if are_sentences_identical gujlish_text english_text
               then s\<lparr>identical_sentences := identical_sentences s + 1,
                      english_sentences := english_sentences s + 1\<rparr>
               else s\<lparr>gujlish_sentences := gujlish_sentences s + 1\<rparr>)
      in case language_mix_ratio gujlish_text of
           None \<Rightarrow> Inr s
         | Some (e, g) \<Rightarrow>
             Inr (s\<lparr>eng_ratios := eng_ratios s @ [e], guj_ratios := guj_ratios s @ [g]\<rparr>))))"

fun for_messages :: "locals \<Rightarrow> turn_record list \<Rightarrow> error + locals" where
  "for_messages s [] = Inr s"
| "for_messages s (message # rest) =
     (case process_message s message of
        Inl e \<Rightarrow> Inl e
      | Inr s' \<Rightarrow> for_messages s' rest)"

text \<open>The body of the outer loop (lines 36 and 37).\<close>

definition process_conversation :: "locals \<Rightarrow> topic_record \<Rightarrow> error + locals" where
  "process_conversation s conversation =
     (case topic conversation of
        None \<Rightarrow> Inl (KeyError ''topic'')
      | Some name \<Rightarrow>
     (let s = s\<lparr>topics := counter_incr name (topics s)\<rparr> in
      case conversations conversation of
        None \<Rightarrow> Inl (KeyError ''conversations'')
      | Some messages \<Rightarrow> for_messages s messages))"

fun for_conversations :: "locals \<Rightarrow> topic_record list \<Rightarrow> error + locals" where
  "for_conversations s [] = Inr s"
| "for_conversations s (conversation # rest) =
     (case process_conversation s conversation of
        Inl e \<Rightarrow> Inl e
      | Inr s' \<Rightarrow> for_conversations s' rest)"

definition initial_locals :: locals where
  "initial_locals =
     \<lparr>total_sentences = 0, english_sentences = 0, gujlish_sentences = 0, topics = [],
      identical_sentences = 0, eng_ratios = [], guj_ratios = []\<rparr>"

definition average :: "rat list \<Rightarrow> rat" where
  "average ratios = (if ratios \<noteq> [] then sum_list ratios / of_nat (length ratios) else 0)"

definition analyze_conversations :: "topic_record list \<Rightarrow> error + statistics" where
  "analyze_conversations data =
     (let total_conversations = length data in
      case for_conversations initial_locals data of
        Inl e \<Rightarrow> Inl e
      | Inr s \<Rightarrow>
          Inr \<lparr>total_sentences = total_sentences s,
               english_sentences = english_sentences s,
               gujlish_sentences = gujlish_sentences s,
               topics = topics s,
               identical_sentences = identical_sentences s,
               total_conversations = total_conversations,
               language_mix_stats = zip (eng_ratios s) (guj_ratios s),
               avg_eng_ratio = average (eng_ratios s),
               avg_guj_ratio = average (guj_ratios s)\<rparr>)"

section \<open>jsonToCSV.py\<close>

text \<open>
  A row dictionary \<open>turn_data\<close> with its keys \<open>turn_id\<close>, \<open>topic\<close>, \<open>speaker\<close>,
  \<open>gujlish\<close>, \<open>english\<close>; a \<open>None\<close> cell is what \<open>dict.get\<close> returns for an absent key.
\<close>

record turn_data =
  row_turn_id :: nat
  row_topic :: string
  row_speaker :: "string option"
  row_gujlish :: "string option"
  row_english :: "string option"

record export_state =
  all_conversation_turns :: "turn_data list"
  turn_id_counter :: nat

text \<open>The body of the inner loop (lines 33 to 41).\<close>

definition export_turn :: "string \<Rightarrow> export_state \<Rightarrow> turn_record \<Rightarrow> export_state" where
  "export_turn topic_name s conv_turn =
     (let turn_id_counter = turn_id_counter s + 1;
          turn_data = \<lparr>row_turn_id = turn_id_counter,
                       row_topic = topic_name,
                       row_speaker = speaker conv_turn,
                       row_gujlish = gujlish conv_turn,
                       row_english = english conv_turn\<rparr>
      in \<lparr>all_conversation_turns = all_conversation_turns s @ [turn_data],
          turn_id_counter = turn_id_counter\<rparr>)"

text \<open>\<open>topic_data.get('topic', 'Unknown Topic')\<close> and \<open>topic_data.get('conversations', [])\<close>.\<close>

definition get_topic :: "topic_record \<Rightarrow> string" where
  "get_topic topic_data = (case topic topic_data of None \<Rightarrow> ''Unknown Topic'' | Some name \<Rightarrow> name)"

definition get_conversations :: "topic_record \<Rightarrow> turn_record list" where
  "get_conversations topic_data = (case conversations topic_data of None \<Rightarrow> [] | Some cs \<Rightarrow> cs)"

text \<open>The body of the outer loop (lines 29 to 41), and the loop over the document.\<close>

definition export_topic :: "export_state \<Rightarrow> topic_record \<Rightarrow> export_state" where
  "export_topic s topic_data =
     (let topic_name = get_topic topic_data;
          conversations = get_conversations topic_data
      in foldl (export_turn topic_name) s conversations)"

definition collect_turns :: "topic_record list \<Rightarrow> export_state" where
  "collect_turns raw_data =
     foldl export_topic \<lparr>all_conversation_turns = [], turn_id_counter = 0\<rparr> raw_data"

text \<open>
  The data frame handed to \<open>to_csv\<close>: its columns are the keys of the row dictionaries
  in their order, written as the header line, and one line per row follows.
\<close>

record data_frame =
  columns :: "string list"
  records :: "turn_data list"

datatype export_result = No_Data | To_Csv data_frame

definition json_to_csv_pandas :: "topic_record list \<Rightarrow> export_result" where
  "json_to_csv_pandas raw_data =
     (let turns = all_conversation_turns (collect_turns raw_data)
      in if turns = [] then No_Data
         else To_Csv \<lparr>columns = [''turn_id'', ''topic'', ''speaker'', ''gujlish'', ''english''],
                      records = turns\<rparr>)"

section \<open>Reference notions for the properties\<close>

text \<open>A turn with both text keys, and a topic object with both of its keys whose turns
  all have both text keys.\<close>

definition turn_complete :: "turn_record \<Rightarrow> bool" where
  "turn_complete message = (gujlish message \<noteq> None \<and> english message \<noteq> None)"

definition topic_complete :: "topic_record \<Rightarrow> bool" where
  "topic_complete conversation =
     (topic conversation \<noteq> None \<and>
      (case conversations conversation of
         None \<Rightarrow> False
       | Some messages \<Rightarrow> list_all turn_complete messages))"

definition counts_consistent :: "'a counters_scheme \<Rightarrow> bool" where
  "counts_consistent s =
     (english_sentences s + gujlish_sentences s = total_sentences s \<and>
      identical_sentences s = english_sentences s)"

text \<open>The turns of the document in input order, each with the topic name the exporter
  gives it, and the row of a turn with a given number.\<close>

definition flatten_document :: "topic_record list \<Rightarrow> (string \<times> turn_record) list" where
  "flatten_document raw_data =
     concat (map (\<lambda>topic_data. map (Pair (get_topic topic_data)) (get_conversations topic_data))
       raw_data)"

definition numbered_row :: "nat \<times> string \<times> turn_record \<Rightarrow> turn_data" where
  "numbered_row = (\<lambda>(k, topic_name, conv_turn).
     \<lparr>row_turn_id = k, row_topic = topic_name, row_speaker = speaker conv_turn,
      row_gujlish = gujlish conv_turn, row_english = english conv_turn\<rparr>)"

text \<open>The number of maximal runs of ASCII letters in a text.\<close>

definition letter_runs :: "string \<Rightarrow> nat" where
  "letter_runs text = length (maximal_runs is_ascii_letter text)"

section \<open>The text normalizer\<close>

lemma lower_char_not_upper: "\<not> is_ascii_upper (lower_char c)"
  by (auto simp: lower_char_def is_ascii_upper_def code_point_def Let_def)

lemma set_strip: "set (strip text) \<subseteq> set text"
proof -
  have "set (strip text) = set (dropWhile isspace (rev (dropWhile isspace text)))"
    by (simp add: strip_def)
  also have "\<dots> \<subseteq> set (rev (dropWhile isspace text))"
    by (meson set_dropWhileD subsetI)
  also have "\<dots> \<subseteq> set text"
    using set_dropWhileD by fastforce
  finally show ?thesis .
qed

lemma normalize_text_no_upper: "c \<in> set (normalize_text text) \<Longrightarrow> \<not> is_ascii_upper c"
proof -
  assume "c \<in> set (normalize_text text)"
  then have "c \<in> set (strip (lower text))"
    by (simp add: normalize_text_def delete_punctuation_def)
  then have "c \<in> set (lower text)"
    using set_strip by blast
  then show ?thesis
    by (auto simp: lower_def lower_char_not_upper)
qed

lemma normalize_text_no_punctuation: "c \<in> set (normalize_text text) \<Longrightarrow> \<not> punctuation c"
  by (simp add: normalize_text_def delete_punctuation_def)

text \<open>
  C2. The normalizer strips the whitespace before it deletes the punctuation, so a text
  whose last word is followed by a space and a punctuation mark keeps the space: the
  result of \<open>normalize_text\<close> on \<open>Kem chho ?\<close> ends with a space, and the text is not
  classified as identical to \<open>Kem chho\<close>.
\<close>

theorem normalize_text_trailing_space:
  "normalize_text ''Kem chho ?'' = ''kem chho '' \<and>
   isspace (last (normalize_text ''Kem chho ?'')) \<and>
   \<not> are_sentences_identical ''Kem chho ?'' ''Kem chho''"
  by code_simp

section \<open>The language mix ratio\<close>

lemma language_mix_ratio_sum:
  assumes "language_mix_ratio gujlish_text = Some (e, g)"
  shows "e + g = 1 \<and> 0 \<le> e \<and> g \<le> 1"
proof -
  let ?n = "length (split gujlish_text)"
  let ?k = "eng_words_of gujlish_text"
  from assms have n: "0 < ?n"
    and e: "e = of_nat ?k / of_nat ?n"
    and g: "g = of_int (int ?n - int ?k) / of_nat ?n"
    by (auto simp: language_mix_ratio_def Let_def split: if_splits)
  from n have pos: "(0::rat) < of_nat ?n" by simp
  have "e + g = (of_nat ?k + of_int (int ?n - int ?k)) / of_nat ?n"
    unfolding e g by (rule add_divide_distrib [symmetric])
  also have "\<dots> = of_nat ?n / of_nat ?n" by simp
  also have "\<dots> = 1" using pos by simp
  finally have sum: "e + g = 1" .
  have "0 \<le> e" by (simp add: e)
  with sum show ?thesis by linarith
qed

text \<open>
  C3. The regular expression is matched against the whole text, not against each token,
  so a token with several letter runs counts as several English words: for the turn
  \<open>T-shirt saras che\<close> (3 tokens, 4 matches) the engine emits the pair \<open>(4/3, -1/3)\<close>,
  whose components are outside \<open>[0,1]\<close>.
\<close>

theorem ratio_pair_out_of_range:
  "length (split ''T-shirt saras che'') = 3 \<and>
   re_findall ''T-shirt saras che'' = [''T'', ''shirt'', ''saras'', ''che''] \<and>
   language_mix_ratio ''T-shirt saras che'' = Some (4 / 3, - (1 / 3)) \<and>
   analyze_conversations
     [\<lparr>topic = Some ''Shopping'', conversations = Some
        [\<lparr>speaker = Some ''A'', gujlish = Some ''T-shirt saras che'',
          english = Some ''The T-shirt is nice''\<rparr>]\<rparr>] =
     Inr \<lparr>total_sentences = 1, english_sentences = 0, gujlish_sentences = 1,
          topics = [(''Shopping'', 1)], identical_sentences = 0, total_conversations = 1,
          language_mix_stats = [(4 / 3, - (1 / 3))],
          avg_eng_ratio = 4 / 3, avg_guj_ratio = - (1 / 3)\<rparr>"
  by code_simp

text \<open>
  C4. For the turn with mixed text \<open>Mane ek coffee joie\<close> and reference text
  \<open>I want a coffee\<close> the classifier returns Distinct, and the ratio pair is \<open>(1, 0)\<close>:
  the text has 4 tokens and each of them is a run of ASCII letters, so the regular
  expression matches 4 times.
\<close>

theorem coffee_turn_ratio:
  "\<not> are_sentences_identical ''Mane ek coffee joie'' ''I want a coffee'' \<and>
   split ''Mane ek coffee joie'' = [''Mane'', ''ek'', ''coffee'', ''joie''] \<and>
   re_findall ''Mane ek coffee joie'' = [''Mane'', ''ek'', ''coffee'', ''joie''] \<and>
   language_mix_ratio ''Mane ek coffee joie'' = Some (1, 0)"
  by code_simp

text \<open>The pair \<open>(0.25, 0.75)\<close> is not the one emitted for this turn.\<close>

theorem coffee_turn_ratio_counterexample:
  "language_mix_ratio ''Mane ek coffee joie'' \<noteq> Some (1 / 4, 3 / 4)"
  by code_simp

section \<open>The regular expression\<close>

lemma letter_is_word_char: "is_ascii_letter c \<Longrightarrow> is_word_char c"
  by (auto simp: is_ascii_letter_def is_word_char_def Let_def)

lemma maximal_runs_Nil: "maximal_runs P [] = []"
  by (simp add: maximal_runs.simps)

lemma maximal_runs_skip: "\<not> P c \<Longrightarrow> maximal_runs P (c # cs) = maximal_runs P cs"
  by (simp add: maximal_runs.simps [of P "c # cs"] maximal_runs.simps [of P cs])

lemma maximal_runs_take:
  "P c \<Longrightarrow> maximal_runs P (c # cs) = (c # takeWhile P cs) # maximal_runs P (dropWhile P cs)"
  by (simp add: maximal_runs.simps [of P "c # cs"])

lemma findall_after_word:
  "findall_words True s = findall_words False (dropWhile is_word_char s)"
proof (induction s)
  case Nil
  show ?case by simp
next
  case (Cons c cs)
  show ?case
  proof (cases "is_word_char c")
    case True
    with Cons.IH show ?thesis by simp
  next
    case False
    then have "\<not> is_ascii_letter c"
      using letter_is_word_char by blast
    with False show ?thesis by simp
  qed
qed

lemma letter_run_is_word_run:
  "(case dropWhile is_ascii_letter xs of [] \<Rightarrow> True | d # _ \<Rightarrow> \<not> is_word_char d) \<Longrightarrow>
   takeWhile is_word_char xs = takeWhile is_ascii_letter xs \<and>
   dropWhile is_word_char xs = dropWhile is_ascii_letter xs"
proof (induction xs)
  case Nil
  show ?case by simp
next
  case (Cons x xs)
  show ?case
  proof (cases "is_ascii_letter x")
    case True
    with Cons show ?thesis by (simp add: letter_is_word_char)
  next
    case False
    with Cons.prems show ?thesis by simp
  qed
qed

lemma drop_word_chars_stays:
  "(case r of [] \<Rightarrow> True | d # _ \<Rightarrow> \<not> is_word_char d) \<Longrightarrow> dropWhile is_word_char r = r"
  by (cases r) simp_all

lemma word_run_not_letters:
  "dropWhile is_ascii_letter xs = d # ds \<Longrightarrow> is_word_char d \<Longrightarrow>
   \<not> list_all is_ascii_letter (takeWhile is_word_char xs)"
proof (induction xs)
  case Nil
  then show ?case by simp
next
  case (Cons x xs)
  show ?case
  proof (cases "is_ascii_letter x")
    case True
    with Cons show ?thesis by (simp add: letter_is_word_char)
  next
    case False
    with Cons.prems show ?thesis by simp
  qed
qed

lemma findall_words_runs:
  "findall_words False s = filter (list_all is_ascii_letter) (maximal_runs is_word_char s)"
proof (induction s rule: length_induct)
  case (1 s)
  show ?case
  proof (cases s)
    case Nil
    then show ?thesis by (simp add: maximal_runs_Nil)
  next
    case (Cons c cs)
    have IH: "length t < length s \<Longrightarrow>
        findall_words False t = filter (list_all is_ascii_letter) (maximal_runs is_word_char t)" for t
      using 1 by blast
    have shorter: "length (dropWhile is_word_char cs) < length s"
      using length_dropWhile_le [of is_word_char cs] Cons by simp
    show ?thesis
    proof (cases "is_word_char c")
      case False
      then have "\<not> is_ascii_letter c"
        using letter_is_word_char by blast
      with False Cons IH [of cs] show ?thesis
        by (simp add: maximal_runs_skip)
    next
      case word: True
      show ?thesis
      proof (cases "is_ascii_letter c")
        case False
        with word Cons IH [OF shorter] show ?thesis
          by (simp add: maximal_runs_take findall_after_word)
      next
        case letter: True
        let ?rest = "dropWhile is_ascii_letter cs"
        show ?thesis
        proof (cases "case ?rest of [] \<Rightarrow> True | d # _ \<Rightarrow> \<not> is_word_char d")
          case True
          then have runs: "takeWhile is_word_char cs = takeWhile is_ascii_letter cs"
            "dropWhile is_word_char cs = ?rest"
            using letter_run_is_word_run [of cs] by simp_all
          from True have "dropWhile is_word_char ?rest = ?rest"
            by (rule drop_word_chars_stays)
          then have after: "findall_words True ?rest = findall_words False ?rest"
            using findall_after_word [of ?rest] by simp
          have "length ?rest < length s"
            using length_dropWhile_le [of is_ascii_letter cs] Cons by simp
          then have rest: "findall_words False ?rest =
              filter (list_all is_ascii_letter) (maximal_runs is_word_char ?rest)"
            by (rule IH)
          have letters: "list_all is_ascii_letter (takeWhile is_ascii_letter cs)"
            by (simp add: list_all_iff) (meson set_takeWhileD)
          have "findall_words False (c # cs) =
              (c # takeWhile is_ascii_letter cs) # findall_words True ?rest"
            using True letter by simp
          moreover have "maximal_runs is_word_char (c # cs) =
              (c # takeWhile is_ascii_letter cs) # maximal_runs is_word_char ?rest"
            using word runs by (simp add: maximal_runs_take)
          ultimately show ?thesis
            using Cons after rest letters letter by simp
        next
          case False
          then obtain d ds where rest: "?rest = d # ds" and d: "is_word_char d"
            by (cases ?rest) simp_all
          then have "\<not> list_all is_ascii_letter (takeWhile is_word_char cs)"
            using word_run_not_letters by blast
          with False letter word Cons IH [OF shorter] show ?thesis
            by (simp add: maximal_runs_take findall_after_word [of cs])
        qed
      qed
    qed
  qed
qed

text \<open>
  C6. The English-word count of a text is the number of maximal runs of word characters
  (\<open>\w\<close>: letters, digits, underscore) that consist of ASCII letters only. A run of
  ASCII letters next to a digit, an underscore or a letter outside ASCII is not counted.
\<close>

theorem eng_words_count:
  "eng_words_of text =
     length (filter (list_all is_ascii_letter) (maximal_runs is_word_char text))"
  by (simp add: eng_words_of_def re_findall_def findall_words_runs)

text \<open>In \<open>mp3 player\<close> the letters \<open>mp\<close> are a maximal run of ASCII letters, and
  the regular expression does not match them.\<close>

theorem eng_words_count_counterexample:
  "eng_words_of ''mp3 player'' = 1 \<and> letter_runs ''mp3 player'' = 2 \<and>
   eng_words_of ''mp3 player'' \<noteq> letter_runs ''mp3 player''"
  by code_simp

section \<open>The metrics engine\<close>

lemma process_message_returns:
  "(\<exists>s'. process_message s message = Inr s') \<longleftrightarrow> turn_complete message"
  by (auto simp: process_message_def turn_complete_def Let_def split: option.splits)

lemma for_messages_returns:
  "(\<exists>s'. for_messages s messages = Inr s') \<longleftrightarrow> list_all turn_complete messages"
proof (induction messages arbitrary: s)
  case Nil
  show ?case by simp
next
  case (Cons message rest)
  show ?case
  proof (cases "process_message s message")
    case (Inl e)
    then have "\<not> turn_complete message"
      using process_message_returns [of s message] by simp
    with Inl show ?thesis by simp
  next
    case (Inr s1)
    then have "turn_complete message"
      using process_message_returns [of s message] by blast
    with Inr Cons.IH [of s1] show ?thesis by simp
  qed
qed

lemma process_conversation_returns:
  "(\<exists>s'. process_conversation s conversation = Inr s') \<longleftrightarrow> topic_complete conversation"
  by (simp add: process_conversation_def topic_complete_def Let_def for_messages_returns
      split: option.splits)

lemma for_conversations_returns:
  "(\<exists>s'. for_conversations s data = Inr s') \<longleftrightarrow> list_all topic_complete data"
proof (induction data arbitrary: s)
  case Nil
  show ?case by simp
next
  case (Cons conversation rest)
  show ?case
  proof (cases "process_conversation s conversation")
    case (Inl e)
    then have "\<not> topic_complete conversation"
      using process_conversation_returns [of s conversation] by simp
    with Inl show ?thesis by simp
  next
    case (Inr s1)
    then have "topic_complete conversation"
      using process_conversation_returns [of s conversation] by blast
    with Inr Cons.IH [of s1] show ?thesis by simp
  qed
qed

text \<open>
  C1. The engine returns statistics exactly for the documents in which every topic
  object has its \<open>topic\<close> and \<open>conversations\<close> keys and every turn has its \<open>gujlish\<close> and
  \<open>english\<close> keys; on every other document it raises \<open>KeyError\<close>.
\<close>

theorem analyze_returns_iff_complete:
  "(\<exists>stats. analyze_conversations data = Inr stats) \<longleftrightarrow> list_all topic_complete data"
proof -
  have "(\<exists>stats. analyze_conversations data = Inr stats) \<longleftrightarrow>
        (\<exists>s. for_conversations initial_locals data = Inr s)"
    by (auto simp: analyze_conversations_def Let_def split: sum.splits)
  then show ?thesis
    by (simp add: for_conversations_returns)
qed

theorem analyze_returns_iff_complete_witness:
  "list_all topic_complete [\<lparr>topic = Some ''Food'', conversations = Some [\<lparr>speaker = Some ''A'', gujlish = Some ''Mane ek coffee joie'', english = Some ''I want a coffee''\<rparr>, \<lparr>speaker = Some ''B'', gujlish = Some ''OK!'', english = Some ''ok''\<rparr>]\<rparr>] \<and>
   (\<exists>stats. analyze_conversations [\<lparr>topic = Some ''Food'', conversations = Some [\<lparr>speaker = Some ''A'', gujlish = Some ''Mane ek coffee joie'', english = Some ''I want a coffee''\<rparr>, \<lparr>speaker = Some ''B'', gujlish = Some ''OK!'', english = Some ''ok''\<rparr>]\<rparr>] = Inr stats)"
  using analyze_returns_iff_complete [of "[\<lparr>topic = Some ''Food'', conversations = Some [\<lparr>speaker = Some ''A'', gujlish = Some ''Mane ek coffee joie'', english = Some ''I want a coffee''\<rparr>, \<lparr>speaker = Some ''B'', gujlish = Some ''OK!'', english = Some ''ok''\<rparr>]\<rparr>]"]
  by (simp add: topic_complete_def turn_complete_def)

text \<open>A turn without its two text keys makes the engine raise.\<close>

theorem analyze_missing_text_counterexample:
  "analyze_conversations
     [\<lparr>topic = Some ''Food'', conversations = Some
        [\<lparr>speaker = Some ''A'', gujlish = None, english = None\<rparr>]\<rparr>] =
   Inl (KeyError ''gujlish'')"
  by code_simp

lemma process_message_consistent:
  "process_message s message = Inr s' \<Longrightarrow> counts_consistent s \<Longrightarrow> counts_consistent s'"
  by (auto simp: process_message_def counts_consistent_def Let_def split: option.splits if_splits)

lemma for_messages_consistent:
  "for_messages s messages = Inr s' \<Longrightarrow> counts_consistent s \<Longrightarrow> counts_consistent s'"
proof (induction messages arbitrary: s)
  case Nil
  then show ?case by simp
next
  case (Cons message rest)
  then show ?case
    by (auto split: sum.splits dest: process_message_consistent)
qed

lemma process_conversation_consistent:
  "process_conversation s conversation = Inr s' \<Longrightarrow> counts_consistent s \<Longrightarrow> counts_consistent s'"
proof -
  assume run: "process_conversation s conversation = Inr s'" and ok: "counts_consistent s"
  from run obtain name messages where
    "for_messages (s\<lparr>topics := counter_incr name (topics s)\<rparr>) messages = Inr s'"
    by (auto simp: process_conversation_def Let_def split: option.splits)
  moreover from ok have "counts_consistent (s\<lparr>topics := counter_incr name (topics s)\<rparr>)"
    by (simp add: counts_consistent_def)
  ultimately show ?thesis
    by (rule for_messages_consistent)
qed

lemma for_conversations_consistent:
  "for_conversations s data = Inr s' \<Longrightarrow> counts_consistent s \<Longrightarrow> counts_consistent s'"
proof (induction data arbitrary: s)
  case Nil
  then show ?case by simp
next
  case (Cons conversation rest)
  then show ?case
    by (auto split: sum.splits dest: process_conversation_consistent)
qed

text \<open>
  C5. In every statistics value the engine returns, the reference and mixed sentence
  counts add up to the total, and the identical count equals the reference count.
\<close>

theorem statistics_counts:
  assumes "analyze_conversations data = Inr stats"
  shows "english_sentences stats + gujlish_sentences stats = total_sentences stats \<and>
         identical_sentences stats = english_sentences stats"
proof -
  from assms obtain s where run: "for_conversations initial_locals data = Inr s"
    and stats: "english_sentences stats = english_sentences s"
      "gujlish_sentences stats = gujlish_sentences s"
      "total_sentences stats = total_sentences s"
      "identical_sentences stats = identical_sentences s"
    by (auto simp: analyze_conversations_def Let_def split: sum.splits)
  have "counts_consistent initial_locals"
    by (simp add: counts_consistent_def initial_locals_def)
  with run have "counts_consistent s"
    by (rule for_conversations_consistent)
  with stats show ?thesis
    by (simp add: counts_consistent_def)
qed

theorem statistics_counts_witness:
  "(case analyze_conversations
     [\<lparr>topic = Some ''Food'', conversations = Some
        [\<lparr>speaker = Some ''A'', gujlish = Some ''Mane ek coffee joie'',
          english = Some ''I want a coffee''\<rparr>,
         \<lparr>speaker = Some ''B'', gujlish = Some ''OK!'', english = Some ''ok''\<rparr>]\<rparr>] of
      Inl e \<Rightarrow> False
    | Inr stats \<Rightarrow>
        total_sentences stats = 2 \<and> english_sentences stats = 1 \<and>
        english_sentences stats + gujlish_sentences stats = total_sentences stats \<and>
        identical_sentences stats = english_sentences stats)"
proof -
  have run: "analyze_conversations
     [\<lparr>topic = Some ''Food'', conversations = Some
        [\<lparr>speaker = Some ''A'', gujlish = Some ''Mane ek coffee joie'',
          english = Some ''I want a coffee''\<rparr>,
         \<lparr>speaker = Some ''B'', gujlish = Some ''OK!'', english = Some ''ok''\<rparr>]\<rparr>] =
     Inr \<lparr>total_sentences = 2, english_sentences = 1, gujlish_sentences = 1,
          topics = [(''Food'', 1)], identical_sentences = 1, total_conversations = 1,
          language_mix_stats = [(1, 0), (1, 0)], avg_eng_ratio = 1, avg_guj_ratio = 0\<rparr>"
    by code_simp
  show ?thesis
    using run statistics_counts [OF run] by simp
qed


section \<open>The tabular exporter\<close>

lemma export_turns:
  "foldl (export_turn topic_name) s turns =
     \<lparr>all_conversation_turns = all_conversation_turns s @
        map numbered_row (enumerate (turn_id_counter s + 1) (map (Pair topic_name) turns)),
      turn_id_counter = turn_id_counter s + length turns\<rparr>"
proof (induction turns arbitrary: s)
  case Nil
  show ?case by simp
next
  case (Cons conv_turn rest)
  have step: "export_turn topic_name s conv_turn =
      \<lparr>all_conversation_turns = all_conversation_turns s @
         [numbered_row (turn_id_counter s + 1, topic_name, conv_turn)],
       turn_id_counter = turn_id_counter s + 1\<rparr>"
    by (simp add: export_turn_def Let_def numbered_row_def)
  show ?case
    by (simp add: Cons.IH step)
qed

lemma export_topics:
  "foldl export_topic s raw_data =
     \<lparr>all_conversation_turns = all_conversation_turns s @
        map numbered_row (enumerate (turn_id_counter s + 1) (flatten_document raw_data)),
      turn_id_counter = turn_id_counter s + length (flatten_document raw_data)\<rparr>"
proof (induction raw_data arbitrary: s)
  case Nil
  show ?case by (simp add: flatten_document_def)
next
  case (Cons topic_data rest)
  have "flatten_document (topic_data # rest) =
      map (Pair (get_topic topic_data)) (get_conversations topic_data) @ flatten_document rest"
    by (simp add: flatten_document_def)
  moreover have "export_topic s topic_data =
      \<lparr>all_conversation_turns = all_conversation_turns s @
         map numbered_row (enumerate (turn_id_counter s + 1)
           (map (Pair (get_topic topic_data)) (get_conversations topic_data))),
       turn_id_counter = turn_id_counter s + length (get_conversations topic_data)\<rparr>"
    by (simp add: export_topic_def Let_def export_turns)
  ultimately show ?case
    by (simp add: Cons.IH enumerate_append_eq add.assoc)
qed

lemma collect_turns_rows:
  "all_conversation_turns (collect_turns raw_data) =
     map numbered_row (enumerate 1 (flatten_document raw_data))"
  by (simp add: collect_turns_def export_topics)

lemma enumerate_Nil_iff: "enumerate n xs = [] \<longleftrightarrow> xs = []"
  by (cases xs) simp_all

lemma collect_turns_empty:
  "all_conversation_turns (collect_turns raw_data) = [] \<longleftrightarrow> flatten_document raw_data = []"
  by (simp add: collect_turns_rows enumerate_Nil_iff)

text \<open>
  C7. The exporter makes one row per turn, in input order: the rows are the turns of the
  flattened document, and the turn at position \<open>k\<close> (counted from 0) has \<open>turn_id\<close>
  \<open>k + 1\<close>, the counter running on from one topic to the next. When the document has
  a turn, the rows are written under the header \<open>turn_id,topic,speaker,gujlish,english\<close>.
\<close>

theorem exporter_rows:
  "json_to_csv_pandas raw_data =
     (if flatten_document raw_data = [] then No_Data
      else To_Csv \<lparr>columns = [''turn_id'', ''topic'', ''speaker'', ''gujlish'', ''english''],
                   records = all_conversation_turns (collect_turns raw_data)\<rparr>) \<and>
   length (all_conversation_turns (collect_turns raw_data)) = length (flatten_document raw_data) \<and>
   (\<forall>k < length (flatten_document raw_data).
      all_conversation_turns (collect_turns raw_data) ! k =
        numbered_row (k + 1, flatten_document raw_data ! k))"
proof (intro conjI allI impI)
  show "json_to_csv_pandas raw_data =
     (if flatten_document raw_data = [] then No_Data
      else To_Csv \<lparr>columns = [''turn_id'', ''topic'', ''speaker'', ''gujlish'', ''english''],
                   records = all_conversation_turns (collect_turns raw_data)\<rparr>)"
    by (simp add: json_to_csv_pandas_def collect_turns_empty Let_def)
  show "length (all_conversation_turns (collect_turns raw_data)) =
      length (flatten_document raw_data)"
    by (simp add: collect_turns_rows)
next
  fix k
  assume "k < length (flatten_document raw_data)"
  then show "all_conversation_turns (collect_turns raw_data) ! k =
      numbered_row (k + 1, flatten_document raw_data ! k)"
    by (simp add: collect_turns_rows nth_enumerate_eq)
qed

theorem exporter_rows_witness:
  "json_to_csv_pandas
     [\<lparr>topic = Some ''Food'', conversations = Some
        [\<lparr>speaker = Some ''A'', gujlish = Some ''Mane ek coffee joie'',
          english = Some ''I want a coffee''\<rparr>,
         \<lparr>speaker = Some ''B'', gujlish = Some ''OK!'', english = Some ''ok''\<rparr>]\<rparr>,
      \<lparr>topic = None, conversations = Some
        [\<lparr>speaker = None, gujlish = Some ''Kem chho?'', english = None\<rparr>]\<rparr>] =
   To_Csv \<lparr>columns = [''turn_id'', ''topic'', ''speaker'', ''gujlish'', ''english''],
     records =
      [\<lparr>row_turn_id = 1, row_topic = ''Food'', row_speaker = Some ''A'',
         row_gujlish = Some ''Mane ek coffee joie'', row_english = Some ''I want a coffee''\<rparr>,
       \<lparr>row_turn_id = 2, row_topic = ''Food'', row_speaker = Some ''B'',
         row_gujlish = Some ''OK!'', row_english = Some ''ok''\<rparr>,
       \<lparr>row_turn_id = 3, row_topic = ''Unknown Topic'', row_speaker = None,
         row_gujlish = Some ''Kem chho?'', row_english = None\<rparr>]\<rparr> \<and>
   row_turn_id (all_conversation_turns (collect_turns
     [\<lparr>topic = Some ''Food'', conversations = Some
        [\<lparr>speaker = Some ''A'', gujlish = Some ''Mane ek coffee joie'',
          english = Some ''I want a coffee''\<rparr>,
         \<lparr>speaker = Some ''B'', gujlish = Some ''OK!'', english = Some ''ok''\<rparr>]\<rparr>,
      \<lparr>topic = None, conversations = Some
        [\<lparr>speaker = None, gujlish = Some ''Kem chho?'', english = None\<rparr>]\<rparr>]) ! 2) = 3"
proof -
  let ?doc = "[\<lparr>topic = Some ''Food'', conversations = Some
        [\<lparr>speaker = Some ''A'', gujlish = Some ''Mane ek coffee joie'',
          english = Some ''I want a coffee''\<rparr>,
         \<lparr>speaker = Some ''B'', gujlish = Some ''OK!'', english = Some ''ok''\<rparr>]\<rparr>,
      \<lparr>topic = None, conversations = Some
        [\<lparr>speaker = None, gujlish = Some ''Kem chho?'', english = None\<rparr>]\<rparr>]"
  have flat: "flatten_document ?doc =
      [(''Food'', \<lparr>speaker = Some ''A'', gujlish = Some ''Mane ek coffee joie'',
          english = Some ''I want a coffee''\<rparr>),
       (''Food'', \<lparr>speaker = Some ''B'', gujlish = Some ''OK!'', english = Some ''ok''\<rparr>),
       (''Unknown Topic'', \<lparr>speaker = None, gujlish = Some ''Kem chho?'', english = None\<rparr>)]"
    by (simp add: flatten_document_def get_topic_def get_conversations_def)
  have rows: "all_conversation_turns (collect_turns ?doc) =
      [\<lparr>row_turn_id = 1, row_topic = ''Food'', row_speaker = Some ''A'',
         row_gujlish = Some ''Mane ek coffee joie'', row_english = Some ''I want a coffee''\<rparr>,
       \<lparr>row_turn_id = 2, row_topic = ''Food'', row_speaker = Some ''B'',
         row_gujlish = Some ''OK!'', row_english = Some ''ok''\<rparr>,
       \<lparr>row_turn_id = 3, row_topic = ''Unknown Topic'', row_speaker = None,
         row_gujlish = Some ''Kem chho?'', row_english = None\<rparr>]"
    by code_simp
  from flat have third: "(2::nat) < length (flatten_document ?doc)"
    by simp
  show ?thesis
    using exporter_rows [of ?doc] flat rows third by (simp add: numbered_row_def)
qed

text \<open>
  C10. The exporter hands nothing to \<open>to_csv\<close>, and so writes no file, exactly when the
  document has no turn at all: no topic, or topics whose list of turns is empty or absent.
\<close>

theorem no_turns_no_file:
  "json_to_csv_pandas raw_data = No_Data \<longleftrightarrow>
   length (concat (map get_conversations raw_data)) = 0"
proof -
  have "length (flatten_document raw_data) = length (concat (map get_conversations raw_data))"
    by (simp add: flatten_document_def length_concat comp_def)
  then have "flatten_document raw_data = [] \<longleftrightarrow> concat (map get_conversations raw_data) = []"
    by (metis length_0_conv)
  then show ?thesis
    by (simp add: json_to_csv_pandas_def collect_turns_empty Let_def)
qed

theorem no_turns_no_file_witness:
  "length (concat (map get_conversations
     [\<lparr>topic = Some ''Food'', conversations = Some []\<rparr>,
      \<lparr>topic = Some ''Travel'', conversations = None\<rparr>])) = 0 \<and>
   json_to_csv_pandas
     [\<lparr>topic = Some ''Food'', conversations = Some []\<rparr>,
      \<lparr>topic = Some ''Travel'', conversations = None\<rparr>] = No_Data \<and>
   json_to_csv_pandas [] = No_Data"
  using no_turns_no_file [of "[\<lparr>topic = Some ''Food'', conversations = Some []\<rparr>,
      \<lparr>topic = Some ''Travel'', conversations = None\<rparr>]"] no_turns_no_file [of "[]"]
  by (simp add: get_conversations_def)

end
